theory Spec2Isabelle
  imports Main
begin

section \<open>Cart State Manager (client, App.js)\<close>

text \<open>
  A product as the catalog delivers it and a cart item, which is a product with a
  quantity (\<^verbatim>\<open>{ ...productToAdd, quantity: 1 }\<close>). Prices are integers in minor
  currency units and quantities are integers; JavaScript computes exactly on integers
  below \<open>2 ^ 53\<close>, and the model does not bound them. The field \<^verbatim>\<open>id\<close> of the source
  is \<open>id_p\<close> here. The cart is the array held in the component state, in display order.
\<close>

record product =
  id_p :: string
  name :: string
  price :: int
  imageUrl :: string

record cart_item = product +
  quantity :: int

type_synonym cart = "cart_item list"

text \<open>
  \<^verbatim>\<open>addToCart\<close>: the state updater passed to \<^verbatim>\<open>setCart\<close>. \<^verbatim>\<open>prevCart.find\<close>
  yields the first item with the product's id or \<^verbatim>\<open>undefined\<close>; an item is an object
  and so truthy.
\<close>

definition addToCart :: "product \<Rightarrow> cart \<Rightarrow> cart" where
  "addToCart productToAdd prevCart =
     (case find (\<lambda>item. id_p item = id_p productToAdd) prevCart of
        Some existingItem \<Rightarrow>
          map (\<lambda>item. if id_p item = id_p productToAdd
                       then item\<lparr>quantity := quantity item + 1\<rparr> else item) prevCart
      | None \<Rightarrow> prevCart @ [product.extend productToAdd \<lparr>quantity = 1\<rparr>])"

text \<open>\<^verbatim>\<open>removeFromCart\<close>: keeps the items whose id differs.\<close>

definition removeFromCart :: "string \<Rightarrow> cart \<Rightarrow> cart" where
  "removeFromCart productId prevCart = filter (\<lambda>item. id_p item \<noteq> productId) prevCart"

text \<open>\<^verbatim>\<open>updateCartQuantity\<close>.\<close>

definition updateCartQuantity :: "string \<Rightarrow> int \<Rightarrow> cart \<Rightarrow> cart" where
  "updateCartQuantity productId newQuantity prevCart =
     (if newQuantity \<le> 0 then filter (\<lambda>item. id_p item \<noteq> productId) prevCart
      else map (\<lambda>item. if id_p item = productId
                        then item\<lparr>quantity := newQuantity\<rparr> else item) prevCart)"

text \<open>
  The first line of \<^verbatim>\<open>getTotalCartPrice\<close>: \<^verbatim>\<open>cart.reduce\<close> from \<open>0\<close>, left to
  right, in minor units. The conversion to a decimal string for display
  (\<^verbatim>\<open>(totalCents / 100).toFixed(2)\<close>) is floating-point formatting and is not modelled.
\<close>

definition totalCents :: "cart \<Rightarrow> int" where
  "totalCents cart = foldl (\<lambda>total item. total + price item * quantity item) 0 cart"

text \<open>
  The calls a user interface can make on the cart, and a run of them from a given cart.
  The cart of a fresh session is \<^verbatim>\<open>useState([])\<close>.
\<close>

datatype cart_op = Add product | Remove string | SetQuantity string int

fun apply_cart_op :: "cart_op \<Rightarrow> cart \<Rightarrow> cart" where
  "apply_cart_op (Add p) c = addToCart p c"
| "apply_cart_op (Remove i) c = removeFromCart i c"
| "apply_cart_op (SetQuantity i n) c = updateCartQuantity i n c"

definition run_cart_ops :: "cart_op list \<Rightarrow> cart \<Rightarrow> cart" where
  "run_cart_ops ops c = foldl (\<lambda>c' operation. apply_cart_op operation c') c ops"

definition initial_cart :: cart where
  "initial_cart = []"

text \<open>
  The catalog served by \<^verbatim>\<open>GET /api/products\<close>: a fixed array built on every call.
\<close>

definition coffee :: product where
  "coffee = \<lparr>id_p = ''product_1'', name = ''Premium Coffee Beans'', price = 1500,
             imageUrl = ''/images/coffee.jpg''\<rparr>"

definition mug :: product where
  "mug = \<lparr>id_p = ''product_2'', name = ''Handcrafted Mug'', price = 2500,
          imageUrl = ''/images/mug.jpg''\<rparr>"

definition products :: "product list" where
  "products = [coffee, mug]"

section \<open>JavaScript values read by the handlers\<close>

text \<open>
  A parsed JSON document. An object is the list of its members in document order; where
  a key occurs twice, \<^verbatim>\<open>JSON.parse\<close> keeps the last member. Numbers are the integers
  of the data model (the handlers pass them on and never compute with them). A
  JavaScript value read from such a document is a \<open>json\<close> or \<^verbatim>\<open>undefined\<close>, which is
  \<open>None\<close>.
\<close>

datatype json =
    JNull
  | JBool bool
  | JNum int
  | JStr string
  | JArr "json list"
  | JObj "(string \<times> json) list"

type_synonym jsval = "json option"

definition own :: "(string \<times> json) list \<Rightarrow> string \<Rightarrow> jsval" where
  "own members k = map_of (rev members) k"

text \<open>JavaScript's conversion to boolean, as \<^verbatim>\<open>!items\<close> and \<^verbatim>\<open>a || b\<close> apply it.\<close>

fun truthy :: "jsval \<Rightarrow> bool" where
  "truthy None = False"
| "truthy (Some JNull) = False"
| "truthy (Some (JBool b)) = b"
| "truthy (Some (JNum n)) = (n \<noteq> 0)"
| "truthy (Some (JStr s)) = (s \<noteq> [])"
| "truthy (Some (JArr xs)) = True"
| "truthy (Some (JObj members)) = True"

text \<open>
  The messages of the \<^verbatim>\<open>TypeError\<close>s a handler can raise by itself (as Node's
  engine words them): reading a property of \<^verbatim>\<open>null\<close> or of \<^verbatim>\<open>undefined\<close>, and
  calling a property that is not a function.
\<close>

definition null_property :: "string \<Rightarrow> string" where
  "null_property k =
     ''Cannot read properties of null (reading '' @ [CHR 0x27] @ k @ [CHR 0x27] @ '')''"

definition undefined_property :: "string \<Rightarrow> string" where
  "undefined_property k =
     ''Cannot read properties of undefined (reading '' @ [CHR 0x27] @ k @ [CHR 0x27] @ '')''"

definition not_a_function :: "string \<Rightarrow> string" where
  "not_a_function f = f @ '' is not a function''"

text \<open>
  Reading one of the properties \<^verbatim>\<open>name\<close>, \<^verbatim>\<open>price\<close>, \<^verbatim>\<open>quantity\<close>, \<^verbatim>\<open>id\<close>,
  \<^verbatim>\<open>error\<close>, \<^verbatim>\<open>type\<close>, \<^verbatim>\<open>data\<close> or \<^verbatim>\<open>object\<close> of a parsed value: a member
  of an object, \<^verbatim>\<open>undefined\<close> on an array, string, number or boolean (none of them has
  such a property), a \<^verbatim>\<open>TypeError\<close> on \<^verbatim>\<open>null\<close> (\<open>Inl\<close> of its message).
\<close>

fun field :: "json \<Rightarrow> string \<Rightarrow> string + jsval" where
  "field JNull k = Inl (null_property k)"
| "field (JObj members) k = Inr (own members k)"
| "field (JBool b) k = Inr None"
| "field (JNum n) k = Inr None"
| "field (JStr s) k = Inr None"
| "field (JArr xs) k = Inr None"

text \<open>
  The same read on the result of an earlier read, which may be \<^verbatim>\<open>undefined\<close>: this
  throws as well.
\<close>

fun get :: "jsval \<Rightarrow> string \<Rightarrow> string + jsval" where
  "get None k = Inl (undefined_property k)"
| "get (Some v) k = field v k"

text \<open>
  \<^verbatim>\<open>items.length\<close> of a truthy value: the number of elements of an array, the length of
  a string (zero only for the empty one), the member \<^verbatim>\<open>length\<close> of another object,
  \<^verbatim>\<open>undefined\<close> on a number or boolean.
\<close>

fun js_length :: "json \<Rightarrow> jsval" where
  "js_length (JArr xs) = Some (JNum (int (length xs)))"
| "js_length (JStr s) = Some (JNum (int (length s)))"
| "js_length (JObj members) = own members ''length''"
| "js_length JNull = None"
| "js_length (JBool b) = None"
| "js_length (JNum n) = None"

text \<open>An HTTP response as a handler sends it: \<^verbatim>\<open>res.send\<close> of a text or \<^verbatim>\<open>res.json\<close>.\<close>

datatype res_body = Text string | Json json

record response =
  status :: nat
  body :: res_body

section \<open>What a request to the server does\<close>

text \<open>
  One element of \<^verbatim>\<open>line_items\<close>: \<^verbatim>\<open>price_data.currency\<close>,
  \<^verbatim>\<open>price_data.product_data.name\<close>, \<^verbatim>\<open>price_data.unit_amount\<close> and
  \<^verbatim>\<open>quantity\<close>; and the argument of \<^verbatim>\<open>stripe.checkout.sessions.create\<close>.
\<close>

record line_item =
  currency :: string
  product_data_name :: jsval
  unit_amount :: jsval
  line_quantity :: jsval

record session_params =
  payment_method_types :: "string list"
  line_items :: "line_item list"
  mode :: string
  success_url :: string
  cancel_url :: string

text \<open>
  The lines the server writes to the console, one constructor for each
  \<^verbatim>\<open>console.log\<close> and \<^verbatim>\<open>console.error\<close> of server.js, with the values printed.
\<close>

datatype console_line =
    Webhook_received
  | Webhook_verified jsval
  | Webhook_signature_error string
  | Checkout_session_completed jsval
  | Payment_intent_succeeded jsval
  | Unhandled_event_type jsval
  | Error_creating_checkout_session string

text \<open>
  What one request to the session route does. The handler keeps no variable between
  requests and assigns to nothing outside its own locals: its effects are the response
  sent, the calls made to the provider (with their arguments, in order) and the console
  output.
\<close>

record outcome =
  sent :: response
  provider_calls :: "session_params list"
  console :: "console_line list"

section \<open>Webhook Verifier and Dispatcher (server.js, POST /webhook)\<close>

text \<open>
  \<^verbatim>\<open>stripe.webhooks.constructEvent\<close> returns the parsed body of the request, which is
  any JSON value. The handler reads \<^verbatim>\<open>event.type\<close> and, in the two branches for the
  event types it knows, \<^verbatim>\<open>event.data.object\<close> and then \<^verbatim>\<open>.id\<close> of it. Each of
  these reads throws a \<^verbatim>\<open>TypeError\<close> when the value read from is \<^verbatim>\<open>null\<close> or
  \<^verbatim>\<open>undefined\<close>.
\<close>

definition data_object_id :: "json \<Rightarrow> string + jsval" where
  "data_object_id event =
     (case field event ''data'' of
        Inl e \<Rightarrow> Inl e
      | Inr d \<Rightarrow>
          (case get d ''object'' of
             Inl e \<Rightarrow> Inl e
           | Inr session \<Rightarrow> get session ''id''))"

text \<open>
  The \<^verbatim>\<open>switch (event.type)\<close>, which stands after the \<^verbatim>\<open>try\<close> statement: a case
  label is compared with \<^verbatim>\<open>===\<close>; each branch prints one line and breaks. \<open>Inl\<close> is
  the message of an error thrown by a branch, which nothing catches.
\<close>

definition handle_event :: "json \<Rightarrow> string + console_line list" where
  "handle_event event =
     (case field event ''type'' of
        Inl e \<Rightarrow> Inl e
      | Inr t \<Rightarrow>
          if t = Some (JStr ''checkout.session.completed'') then
            (case data_object_id event of
               Inl e \<Rightarrow> Inl e
             | Inr session_id \<Rightarrow> Inr [Checkout_session_completed session_id])
          else if t = Some (JStr ''payment_intent.succeeded'') then
            (case data_object_id event of
               Inl e \<Rightarrow> Inl e
             | Inr paymentIntent_id \<Rightarrow> Inr [Payment_intent_succeeded paymentIntent_id])
          else Inr [Unhandled_event_type t])"

text \<open>
  What one request to the webhook route does: the handler sends a response, or it
  throws past its \<^verbatim>\<open>try\<close> and sends none; and the console output.
\<close>

datatype ending = Responded response | Threw string

record webhook_outcome =
  ended :: ending
  printed :: "console_line list"

text \<open>
  The route handler. \<open>constructEvent\<close> is the payment library's verification of the raw
  body against the \<^verbatim>\<open>stripe-signature\<close> header (absent: \<open>None\<close>) and the configured
  secret \<^verbatim>\<open>process.env.STRIPE_WEBHOOK_SECRET\<close> (unset: \<open>None\<close>): it returns the
  parsed body, or throws, which is \<open>Inl\<close> of the error's message. The \<^verbatim>\<open>try\<close> holds
  this call and the line that prints \<^verbatim>\<open>event.type\<close>; its \<^verbatim>\<open>catch\<close> answers 400.
\<close>

definition rejected :: "string \<Rightarrow> webhook_outcome" where
  "rejected err_message =
     \<lparr>ended = Responded \<lparr>status = 400, body = Text (''Webhook Error: '' @ err_message)\<rparr>,
      printed = [Webhook_received, Webhook_signature_error err_message]\<rparr>"

definition webhook ::
  "(string \<Rightarrow> string option \<Rightarrow> string option \<Rightarrow> string + json) \<Rightarrow>
   string option \<Rightarrow> string \<Rightarrow> string option \<Rightarrow> webhook_outcome" where
  "webhook constructEvent STRIPE_WEBHOOK_SECRET req_body sig =
     (case constructEvent req_body sig STRIPE_WEBHOOK_SECRET of
        Inl err_message \<Rightarrow> rejected err_message
      | Inr event \<Rightarrow>
          (case field event ''type'' of
             Inl err_message \<Rightarrow> rejected err_message
           | Inr t \<Rightarrow>
               (case handle_event event of
                  Inl uncaught \<Rightarrow>
                    \<lparr>ended = Threw uncaught,
                     printed = [Webhook_received, Webhook_verified t]\<rparr>
                | Inr lines \<Rightarrow>
                    \<lparr>ended = Responded
                       \<lparr>status = 200, body = Json (JObj [(''received'', JBool True)])\<rparr>,
                     printed = [Webhook_received, Webhook_verified t] @ lines\<rparr>)))"

text \<open>
  The branch of the switch that printed a console line, if one did: the two recognised
  event types and the default branch.
\<close>

datatype branch = Case_checkout_session_completed | Case_payment_intent_succeeded | Default

fun branch_of :: "console_line \<Rightarrow> branch option" where
  "branch_of (Checkout_session_completed i) = Some Case_checkout_session_completed"
| "branch_of (Payment_intent_succeeded i) = Some Case_payment_intent_succeeded"
| "branch_of (Unhandled_event_type t) = Some Default"
| "branch_of Webhook_received = None"
| "branch_of (Webhook_verified t) = None"
| "branch_of (Webhook_signature_error m) = None"
| "branch_of (Error_creating_checkout_session m) = None"

definition dispatched :: "console_line list \<Rightarrow> branch list" where
  "dispatched out = List.map_filter branch_of out"

section \<open>Checkout Session Creator (server.js, POST /api/create-checkout-session)\<close>

text \<open>
  The arrow function given to \<^verbatim>\<open>items.map\<close>. The object literal reads
  \<^verbatim>\<open>item.name\<close>, \<^verbatim>\<open>item.price\<close> and \<^verbatim>\<open>item.quantity\<close> in this order; the
  first read throws when the item is \<^verbatim>\<open>null\<close>.
\<close>

definition lineItem :: "json \<Rightarrow> string + line_item" where
  "lineItem item =
     (case field item ''name'' of
        Inl e \<Rightarrow> Inl e
      | Inr n \<Rightarrow>
          (case field item ''price'' of
             Inl e \<Rightarrow> Inl e
           | Inr p \<Rightarrow>
               (case field item ''quantity'' of
                  Inl e \<Rightarrow> Inl e
                | Inr q \<Rightarrow>
                    Inr \<lparr>currency = ''aud'', product_data_name = n, unit_amount = p,
                         line_quantity = q\<rparr>)))"

text \<open>\<^verbatim>\<open>Array.prototype.map\<close> with a callback that may throw: the first throw ends it.\<close>

fun map_throwing :: "('a \<Rightarrow> string + 'b) \<Rightarrow> 'a list \<Rightarrow> string + 'b list" where
  "map_throwing f [] = Inr []"
| "map_throwing f (x # xs) =
     (case f x of
        Inl e \<Rightarrow> Inl e
      | Inr y \<Rightarrow> (case map_throwing f xs of Inl e \<Rightarrow> Inl e | Inr ys \<Rightarrow> Inr (y # ys)))"

text \<open>
  \<^verbatim>\<open>items.map(...)\<close> on the value that passed the guard: only an array has a function
  \<^verbatim>\<open>map\<close>; on any other value the call is a \<^verbatim>\<open>TypeError\<close>.
\<close>

definition lineItems :: "jsval \<Rightarrow> string + line_item list" where
  "lineItems items =
     (case items of
        Some (JArr xs) \<Rightarrow> map_throwing lineItem xs
      | _ \<Rightarrow> Inl (not_a_function ''items.map''))"

text \<open>The guard \<^verbatim>\<open>!items || items.length === 0\<close>.\<close>

definition no_items :: "jsval \<Rightarrow> bool" where
  "no_items items =
     (case items of
        None \<Rightarrow> True
      | Some v \<Rightarrow> (if truthy (Some v) then js_length v = Some (JNum 0) else True))"

text \<open>
  A template literal prints an unset environment variable as \<^verbatim>\<open>undefined\<close>.
\<close>

definition env_text :: "string option \<Rightarrow> string" where
  "env_text v = (case v of None \<Rightarrow> ''undefined'' | Some s \<Rightarrow> s)"

definition build_params :: "string option \<Rightarrow> line_item list \<Rightarrow> session_params" where
  "build_params FRONTEND_URL ls =
     \<lparr>payment_method_types = [''card''],
      line_items = ls,
      mode = ''payment'',
      success_url = env_text FRONTEND_URL @ ''/success?session_id={CHECKOUT_SESSION_ID}'',
      cancel_url = env_text FRONTEND_URL @ ''/cancel''\<rparr>"

text \<open>
  The route handler. \<open>req_body\<close> is the object that \<^verbatim>\<open>express.json()\<close> left in
  \<^verbatim>\<open>req.body\<close>, as its members. \<open>create\<close> is \<^verbatim>\<open>stripe.checkout.sessions.create\<close>:
  it returns the id of the session the provider made (\<open>Inr\<close>), or throws, which is
  \<open>Inl\<close> of the error's message.
\<close>

definition create_checkout_session ::
  "(session_params \<Rightarrow> string + string) \<Rightarrow> string option \<Rightarrow> (string \<times> json) list \<Rightarrow> outcome" where
  "create_checkout_session create FRONTEND_URL req_body =
     (let items = own req_body ''items'' in
      if no_items items
      then \<lparr>sent = \<lparr>status = 400, body = Json (JObj [(''error'', JStr ''No items provided'')])\<rparr>,
            provider_calls = [], console = []\<rparr>
      else
        (case lineItems items of
           Inl message \<Rightarrow>
             \<lparr>sent = \<lparr>status = 500, body = Json (JObj [(''error'', JStr message)])\<rparr>,
              provider_calls = [], console = [Error_creating_checkout_session message]\<rparr>
         | Inr ls \<Rightarrow>
             (case create (build_params FRONTEND_URL ls) of
                Inl message \<Rightarrow>
                  \<lparr>sent = \<lparr>status = 500, body = Json (JObj [(''error'', JStr message)])\<rparr>,
                   provider_calls = [build_params FRONTEND_URL ls],
                   console = [Error_creating_checkout_session message]\<rparr>
              | Inr session_id \<Rightarrow>
                  \<lparr>sent = \<lparr>status = 200, body = Json (JObj [(''id'', JStr session_id)])\<rparr>,
                   provider_calls = [build_params FRONTEND_URL ls],
                   console = []\<rparr>)))"

section \<open>Checkout Redirect Flow (client, App.js)\<close>

text \<open>
  The component state the flow uses: the cart and the flag \<^verbatim>\<open>showCheckout\<close>, which
  selects the product listing (\<open>False\<close>) or the checkout view (\<open>True\<close>). A fresh
  component has \<^verbatim>\<open>useState([])\<close> and \<^verbatim>\<open>useState(false)\<close>.
\<close>

record app_state =
  cart :: cart
  showCheckout :: bool

definition initial_state :: app_state where
  "initial_state = \<lparr>cart = initial_cart, showCheckout = False\<rparr>"

datatype flow_state = Browsing | Reviewing

definition flow :: "app_state \<Rightarrow> flow_state" where
  "flow st = (if showCheckout st then Reviewing else Browsing)"

text \<open>
  An error value that the \<^verbatim>\<open>catch\<close> of the client receives, with what its
  \<^verbatim>\<open>message\<close> is made of: a message text supplied by the thrower (the platform, the
  payment library), the string conversion of a truthy value given to \<^verbatim>\<open>new Error\<close>,
  or the text \<^verbatim>\<open>HTTP error! status: N\<close>.
\<close>

datatype js_error =
    Thrown string
  | Error_of json
  | Http_error nat

text \<open>
  What the user or the browser sees: the three \<^verbatim>\<open>alert\<close>s, the two
  \<^verbatim>\<open>console.error\<close>s and the call \<^verbatim>\<open>stripe.redirectToCheckout\<close> with the session
  id it is given.
\<close>

datatype ui_effect =
    Alert_cart_empty
  | Alert_gateway_not_ready
  | Alert_could_not_initiate js_error
  | Console_stripe_not_loaded
  | Console_error_initiating js_error
  | Redirect_to_checkout jsval

definition handleProceedToCheckout :: "app_state \<Rightarrow> app_state \<times> ui_effect list" where
  "handleProceedToCheckout st =
     (if length (cart st) = 0 then (st, [Alert_cart_empty])
      else (st\<lparr>showCheckout := True\<rparr>, []))"

definition handleBackToShopping :: "app_state \<Rightarrow> app_state" where
  "handleBackToShopping st = st\<lparr>showCheckout := False\<rparr>"

text \<open>
  The body of the request: \<^verbatim>\<open>{ items: cart.map(item => ({ id, name, price, quantity })) }\<close>.
\<close>

definition item_json :: "cart_item \<Rightarrow> json" where
  "item_json item =
     JObj [(''id'', JStr (id_p item)), (''name'', JStr (name item)),
           (''price'', JNum (price item)), (''quantity'', JNum (quantity item))]"

definition request_body :: "cart \<Rightarrow> (string \<times> json) list" where
  "request_body c = [(''items'', JArr (map item_json c))]"

text \<open>
  The response the client's \<^verbatim>\<open>fetch\<close> resolves to: its status
  (\<^verbatim>\<open>response.ok\<close> holds from 200 to 299) and what \<^verbatim>\<open>response.json()\<close> gives, the
  parsed body or a thrown error.
\<close>

record fetched =
  fetched_status :: nat
  fetched_json :: "js_error + json"

definition ok :: "fetched \<Rightarrow> bool" where
  "ok r = (200 \<le> fetched_status r \<and> fetched_status r \<le> 299)"

text \<open>
  The \<^verbatim>\<open>try\<close> block of \<^verbatim>\<open>handleStripeCheckoutRedirect\<close>: \<open>Inl\<close> is the error
  thrown to the \<^verbatim>\<open>catch\<close>, \<open>Inr\<close> the effects of a run that throws nothing. \<open>fetch\<close>
  is the call to the backend (it throws on a network failure); \<open>stripePromise\<close> is what
  \<^verbatim>\<open>loadStripe\<close> settles to: rejected, or resolved to the Stripe object (\<open>True\<close>) or
  to \<^verbatim>\<open>null\<close> (\<open>False\<close>).
\<close>

definition try_checkout ::
  "((string \<times> json) list \<Rightarrow> js_error + fetched) \<Rightarrow> js_error + bool \<Rightarrow> cart \<Rightarrow>
   js_error + ui_effect list" where
  "try_checkout fetch stripePromise c =
     (case fetch (request_body c) of
        Inl e \<Rightarrow> Inl e
      | Inr response \<Rightarrow>
          if \<not> ok response then
            (case fetched_json response of
               Inl e \<Rightarrow> Inl e
             | Inr errorData \<Rightarrow>
                 (case field errorData ''error'' of
                    Inl m \<Rightarrow> Inl (Thrown m)
                  | Inr v \<Rightarrow>
                      (case v of
                         None \<Rightarrow> Inl (Http_error (fetched_status response))
                       | Some j \<Rightarrow>
                           if truthy (Some j) then Inl (Error_of j)
                           else Inl (Http_error (fetched_status response)))))
          else
            (case fetched_json response of
               Inl e \<Rightarrow> Inl e
             | Inr session \<Rightarrow>
                 (case stripePromise of
                    Inl e \<Rightarrow> Inl e
                  | Inr stripe \<Rightarrow>
                      if stripe then
                        (case field session ''id'' of
                           Inl m \<Rightarrow> Inl (Thrown m)
                         | Inr sessionId \<Rightarrow> Inr [Redirect_to_checkout sessionId])
                      else Inr [Console_stripe_not_loaded, Alert_gateway_not_ready])))"

text \<open>
  \<^verbatim>\<open>handleStripeCheckoutRedirect\<close>: the \<^verbatim>\<open>catch\<close> prints the error and alerts the
  user with its message. No path calls \<^verbatim>\<open>setShowCheckout\<close> or \<^verbatim>\<open>setCart\<close>.
\<close>

definition handleStripeCheckoutRedirect ::
  "((string \<times> json) list \<Rightarrow> js_error + fetched) \<Rightarrow> js_error + bool \<Rightarrow> app_state \<Rightarrow>
   app_state \<times> ui_effect list" where
  "handleStripeCheckoutRedirect fetch stripePromise st =
     (case try_checkout fetch stripePromise (cart st) of
        Inl error \<Rightarrow> (st, [Console_error_initiating error, Alert_could_not_initiate error])
      | Inr effects \<Rightarrow> (st, effects))"

section \<open>Stand-ins for the external services\<close>

text \<open>
  The handlers take the payment library and the network as arguments. The examples below
  run them with these stand-ins: a verifier that accepts the header \<^verbatim>\<open>sig:\<close> followed
  by the body under the secret \<^verbatim>\<open>whsec_test\<close> (its first argument is the value the
  body parses to), a provider that creates a session, and one that refuses the API key.
\<close>

definition example_constructEvent ::
  "json \<Rightarrow> string \<Rightarrow> string option \<Rightarrow> string option \<Rightarrow> string + json" where
  "example_constructEvent parsed req_body sig secret =
     (if sig = Some (''sig:'' @ req_body) \<and> secret = Some ''whsec_test''
      then Inr parsed
      else Inl ''No signatures found matching the expected signature for payload'')"

definition example_create :: "session_params \<Rightarrow> string + string" where
  "example_create params = Inr ''cs_test_a1''"

definition failing_create :: "session_params \<Rightarrow> string + string" where
  "failing_create params = Inl ''Invalid API Key provided''"

text \<open>
  The session route as the client's \<^verbatim>\<open>fetch\<close> reaches it: the status the handler
  sent, and its body as \<^verbatim>\<open>response.json()\<close> parses it (a text body is not JSON).
\<close>

definition backend_fetch ::
  "(session_params \<Rightarrow> string + string) \<Rightarrow> string option \<Rightarrow> (string \<times> json) list \<Rightarrow>
   js_error + fetched" where
  "backend_fetch create FRONTEND_URL req_body =
     (let res = sent (create_checkout_session create FRONTEND_URL req_body) in
      Inr \<lparr>fetched_status = status res,
           fetched_json = (case body res of
                             Json j \<Rightarrow> Inr j
                           | Text t \<Rightarrow> Inl (Thrown ''Unexpected token in JSON''))\<rparr>)"

section \<open>Properties of the cart\<close>

subsection \<open>Auxiliary facts\<close>

lemma find_id_None: "find (\<lambda>item. id_p item = k) c = None \<longleftrightarrow> k \<notin> id_p ` set c"
  by (auto simp: find_None_iff)

lemma map_unchanged:
  "\<forall>x \<in> set c. \<not> P x \<Longrightarrow> map (\<lambda>item. if P item then f item else item) c = c"
  by (induction c) auto

lemma addToCart_present:
  assumes "id_p p \<in> id_p ` set c"
  shows "addToCart p c =
    map (\<lambda>item. if id_p item = id_p p then item\<lparr>quantity := quantity item + 1\<rparr> else item) c"
proof (cases "find (\<lambda>item. id_p item = id_p p) c")
  case None
  with assms show ?thesis using find_id_None [of "id_p p" c] by simp
next
  case (Some a)
  then show ?thesis by (simp add: addToCart_def)
qed

lemma addToCart_absent:
  assumes "id_p p \<notin> id_p ` set c"
  shows "addToCart p c = c @ [product.extend p \<lparr>quantity = 1\<rparr>]"
proof -
  from assms have "find (\<lambda>item. id_p item = id_p p) c = None"
    using find_id_None [of "id_p p" c] by simp
  then show ?thesis by (simp add: addToCart_def)
qed

lemma map_id_set_quantity:
  "map id_p (map (\<lambda>item. if id_p item = k then item\<lparr>quantity := g item\<rparr> else item) c)
     = map id_p c"
  by (induction c) auto

lemma map_id_addToCart:
  "map id_p (addToCart p c) =
     (if id_p p \<in> id_p ` set c then map id_p c else map id_p c @ [id_p p])"
proof (cases "id_p p \<in> id_p ` set c")
  case True
  then show ?thesis
    by (simp only: addToCart_present map_id_set_quantity if_True)
next
  case False
  then show ?thesis
    by (simp add: addToCart_absent product.defs)
qed

lemma addToCart_twice_absent:
  assumes "id_p p \<notin> id_p ` set c"
  shows "addToCart p (addToCart p c) = c @ [product.extend p \<lparr>quantity = 2\<rparr>]"
proof -
  let ?new = "product.extend p \<lparr>quantity = 1\<rparr>"
  have id_new: "id_p ?new = id_p p" by (simp add: product.defs)
  have first: "addToCart p c = c @ [?new]" by (rule addToCart_absent [OF assms])
  have "id_p p \<in> id_p ` set (c @ [?new])" using id_new by (simp del: id_new)
  then have "addToCart p (c @ [?new]) =
      map (\<lambda>item. if id_p item = id_p p then item\<lparr>quantity := quantity item + 1\<rparr> else item)
        (c @ [?new])"
    by (rule addToCart_present)
  also have "\<dots> = c @ [?new\<lparr>quantity := quantity ?new + 1\<rparr>]"
  proof -
    have "\<forall>x \<in> set c. \<not> id_p x = id_p p" using assms by force
    then have "map (\<lambda>item. if id_p item = id_p p
                              then item\<lparr>quantity := quantity item + 1\<rparr> else item) c = c"
      by (rule map_unchanged)
    then show ?thesis using id_new by simp
  qed
  also have "?new\<lparr>quantity := quantity ?new + 1\<rparr> = product.extend p \<lparr>quantity = 2\<rparr>"
    by (simp add: product.defs)
  finally show ?thesis using first by simp
qed

lemma distinct_addToCart:
  "distinct (map id_p c) \<Longrightarrow> distinct (map id_p (addToCart p c))"
  by (auto simp: map_id_addToCart)

lemma distinct_removeFromCart:
  "distinct (map id_p c) \<Longrightarrow> distinct (map id_p (removeFromCart k c))"
  by (simp add: removeFromCart_def distinct_map_filter)

lemma distinct_updateCartQuantity:
  "distinct (map id_p c) \<Longrightarrow> distinct (map id_p (updateCartQuantity k n c))"
  by (simp add: updateCartQuantity_def distinct_map_filter map_id_set_quantity del: map_map)

lemma distinct_apply_cart_op:
  "distinct (map id_p c) \<Longrightarrow> distinct (map id_p (apply_cart_op operation c))"
  by (cases operation)
     (simp_all add: distinct_addToCart distinct_removeFromCart distinct_updateCartQuantity)

lemma distinct_run_cart_ops:
  "distinct (map id_p c) \<Longrightarrow> distinct (map id_p (run_cart_ops ops c))"
  unfolding run_cart_ops_def
  by (induction ops arbitrary: c) (simp_all add: distinct_apply_cart_op)

lemma foldl_total:
  "foldl (\<lambda>total item. total + price item * quantity item) acc c
     = acc + (\<Sum>item\<leftarrow>c. price item * quantity item)"
  by (induction c arbitrary: acc) simp_all

lemma totalCents_sum_list: "totalCents c = (\<Sum>item\<leftarrow>c. price item * quantity item)"
  by (simp add: totalCents_def foldl_total)

subsection \<open>Unique ids and the total\<close>

text \<open>
  Claim C6. After any sequence of \<^verbatim>\<open>add\<close>, \<^verbatim>\<open>remove\<close> and \<^verbatim>\<open>setQuantity\<close> calls
  on the initially empty cart, no two cart items have the same product id, and the
  total in minor units that \<^verbatim>\<open>getTotalCartPrice\<close> accumulates equals the sum of
  price times quantity over the items of the cart.
\<close>

theorem cart_unique_ids_and_total:
  "distinct (map id_p (run_cart_ops ops initial_cart)) \<and>
   totalCents (run_cart_ops ops initial_cart)
     = (\<Sum>item\<leftarrow>run_cart_ops ops initial_cart. price item * quantity item)"
  by (simp add: distinct_run_cart_ops initial_cart_def totalCents_sum_list)

subsection \<open>Adding a product\<close>

text \<open>
  Claim C7. \<^verbatim>\<open>add(product)\<close> on a cart that has the product's id keeps the length and
  the order of the ids, adds 1 to the quantity of the item with that id and leaves every
  other item as it is; on a cart without the id it appends a new item with quantity 1 at
  the end. Adding the same product twice to a cart without it (the empty cart in
  particular) gives one item with quantity 2, not two items.
\<close>

theorem addToCart_increments_or_appends:
  "(id_p p \<in> id_p ` set c \<longrightarrow>
      length (addToCart p c) = length c \<and>
      map id_p (addToCart p c) = map id_p c \<and>
      (\<forall>k < length c. addToCart p c ! k =
         (if id_p (c ! k) = id_p p then (c ! k)\<lparr>quantity := quantity (c ! k) + 1\<rparr> else c ! k))) \<and>
   (id_p p \<notin> id_p ` set c \<longrightarrow>
      addToCart p c = c @ [product.extend p \<lparr>quantity = 1\<rparr>] \<and>
      addToCart p (addToCart p c) = c @ [product.extend p \<lparr>quantity = 2\<rparr>]) \<and>
   addToCart p (addToCart p initial_cart) = [product.extend p \<lparr>quantity = 2\<rparr>]"
proof (intro conjI impI allI)
  assume present: "id_p p \<in> id_p ` set c"
  show "length (addToCart p c) = length c"
    by (simp add: addToCart_present [OF present])
  show "map id_p (addToCart p c) = map id_p c"
    using present by (simp add: map_id_addToCart)
  show "k < length c \<Longrightarrow> addToCart p c ! k =
         (if id_p (c ! k) = id_p p then (c ! k)\<lparr>quantity := quantity (c ! k) + 1\<rparr> else c ! k)" for k
    by (simp add: addToCart_present [OF present])
next
  assume absent: "id_p p \<notin> id_p ` set c"
  show "addToCart p c = c @ [product.extend p \<lparr>quantity = 1\<rparr>]"
    by (rule addToCart_absent [OF absent])
  show "addToCart p (addToCart p c) = c @ [product.extend p \<lparr>quantity = 2\<rparr>]"
    by (rule addToCart_twice_absent [OF absent])
next
  show "addToCart p (addToCart p initial_cart) = [product.extend p \<lparr>quantity = 2\<rparr>]"
    using addToCart_twice_absent [of p "[]"] by (simp add: initial_cart_def)
qed

text \<open>The catalog's coffee added to a cart that holds it, and to one that does not.\<close>

theorem addToCart_increments_or_appends_witness:
  "id_p coffee \<in> id_p ` set [product.extend mug \<lparr>quantity = 3\<rparr>, product.extend coffee \<lparr>quantity = 1\<rparr>] \<and>
   length (addToCart coffee
     [product.extend mug \<lparr>quantity = 3\<rparr>, product.extend coffee \<lparr>quantity = 1\<rparr>]) = 2 \<and>
   addToCart coffee
     [product.extend mug \<lparr>quantity = 3\<rparr>, product.extend coffee \<lparr>quantity = 1\<rparr>] ! 0
     = product.extend mug \<lparr>quantity = 3\<rparr> \<and>
   addToCart coffee
     [product.extend mug \<lparr>quantity = 3\<rparr>, product.extend coffee \<lparr>quantity = 1\<rparr>] ! 1
     = product.extend coffee \<lparr>quantity = 2\<rparr> \<and>
   id_p coffee \<notin> id_p ` set [product.extend mug \<lparr>quantity = 3\<rparr>] \<and>
   addToCart coffee [product.extend mug \<lparr>quantity = 3\<rparr>]
     = [product.extend mug \<lparr>quantity = 3\<rparr>, product.extend coffee \<lparr>quantity = 1\<rparr>] \<and>
   addToCart coffee (addToCart coffee [product.extend mug \<lparr>quantity = 3\<rparr>])
     = [product.extend mug \<lparr>quantity = 3\<rparr>, product.extend coffee \<lparr>quantity = 2\<rparr>]"
proof -
  let ?m = "product.extend mug \<lparr>quantity = 3\<rparr>"
  let ?c = "product.extend coffee \<lparr>quantity = 1\<rparr>"
  have ids: "id_p ?m = ''product_2''" "id_p ?c = ''product_1''" "id_p coffee = ''product_1''"
    by (simp_all add: coffee_def mug_def product.defs)
  have present: "id_p coffee \<in> id_p ` set [?m, ?c]"
    and absent: "id_p coffee \<notin> id_p ` set [?m]"
    by (simp_all add: ids)
  have upd: "?c\<lparr>quantity := quantity ?c + 1\<rparr> = product.extend coffee \<lparr>quantity = 2\<rparr>"
    by (simp add: product.defs)
  note in_cart = addToCart_increments_or_appends [of coffee "[?m, ?c]"]
  from in_cart present have len: "length (addToCart coffee [?m, ?c]) = length [?m, ?c]"
    by blast
  from in_cart present have nth: "\<forall>k < length [?m, ?c]. addToCart coffee [?m, ?c] ! k =
      (if id_p ([?m, ?c] ! k) = id_p coffee
       then ([?m, ?c] ! k)\<lparr>quantity := quantity ([?m, ?c] ! k) + 1\<rparr> else [?m, ?c] ! k)"
    by blast
  from nth [rule_format, of 0] have at0: "addToCart coffee [?m, ?c] ! 0 = ?m"
    by (simp add: ids)
  from nth [rule_format, of 1] upd
  have at1: "addToCart coffee [?m, ?c] ! 1 = product.extend coffee \<lparr>quantity = 2\<rparr>"
    by (simp add: ids)
  from len have len2: "length (addToCart coffee [?m, ?c]) = 2" by simp
  note not_in_cart = addToCart_increments_or_appends [of coffee "[?m]"]
  from not_in_cart absent have once: "addToCart coffee [?m] = [?m] @ [?c]"
    by blast
  from not_in_cart absent
  have twice: "addToCart coffee (addToCart coffee [?m])
      = [?m] @ [product.extend coffee \<lparr>quantity = 2\<rparr>]"
    by blast
  from present len2 at0 at1 absent once twice show ?thesis
    by (simp only: append_Cons append_Nil simp_thms)
qed

subsection \<open>Setting a quantity\<close>

text \<open>
  Claim C8. For \<open>n \<le> 0\<close>, \<^verbatim>\<open>setQuantity(productId, n)\<close> gives the same cart as
  \<^verbatim>\<open>remove(productId)\<close>; with 0 and with -1 the id is no longer in the cart. For
  \<open>n > 0\<close> the cart keeps its length, every item with the id gets quantity \<open>n\<close> and
  every other item stays as it is.
\<close>

theorem updateCartQuantity_nonpositive_removes:
  "(n \<le> 0 \<longrightarrow> updateCartQuantity i n c = removeFromCart i c) \<and>
   updateCartQuantity i 0 c = removeFromCart i c \<and>
   updateCartQuantity i (- 1) c = removeFromCart i c \<and>
   i \<notin> id_p ` set (updateCartQuantity i 0 c) \<and>
   i \<notin> id_p ` set (updateCartQuantity i (- 1) c) \<and>
   (0 < n \<longrightarrow>
      length (updateCartQuantity i n c) = length c \<and>
      (\<forall>k < length c. updateCartQuantity i n c ! k =
         (if id_p (c ! k) = i then (c ! k)\<lparr>quantity := n\<rparr> else c ! k)))"
  by (auto simp: updateCartQuantity_def removeFromCart_def)

theorem updateCartQuantity_nonpositive_removes_witness:
  "(- 2 :: int) \<le> 0 \<and>
   updateCartQuantity ''product_1'' (- 2)
       [product.extend mug \<lparr>quantity = 3\<rparr>, product.extend coffee \<lparr>quantity = 1\<rparr>]
     = removeFromCart ''product_1''
       [product.extend mug \<lparr>quantity = 3\<rparr>, product.extend coffee \<lparr>quantity = 1\<rparr>] \<and>
   removeFromCart ''product_1''
       [product.extend mug \<lparr>quantity = 3\<rparr>, product.extend coffee \<lparr>quantity = 1\<rparr>]
     = [product.extend mug \<lparr>quantity = 3\<rparr>] \<and>
   (0 :: int) < 7 \<and>
   updateCartQuantity ''product_1'' 7
       [product.extend mug \<lparr>quantity = 3\<rparr>, product.extend coffee \<lparr>quantity = 1\<rparr>] ! 1
     = product.extend coffee \<lparr>quantity = 7\<rparr>"
  using updateCartQuantity_nonpositive_removes
          [of "- 2" "''product_1''"
              "[product.extend mug \<lparr>quantity = 3\<rparr>, product.extend coffee \<lparr>quantity = 1\<rparr>]"]
        updateCartQuantity_nonpositive_removes
          [of 7 "''product_1''"
              "[product.extend mug \<lparr>quantity = 3\<rparr>, product.extend coffee \<lparr>quantity = 1\<rparr>]"]
  by (simp add: removeFromCart_def coffee_def mug_def product.defs)

text \<open>
  Claim C10. For a product id that is not in the cart and \<open>n > 0\<close>,
  \<^verbatim>\<open>setQuantity(productId, n)\<close> returns the cart unchanged: no item is created and
  none is modified.
\<close>

theorem updateCartQuantity_absent_unchanged:
  "i \<notin> id_p ` set c \<Longrightarrow> 0 < n \<Longrightarrow> updateCartQuantity i n c = c"
  using map_unchanged [of c "\<lambda>item. id_p item = i"]
  by (auto simp: updateCartQuantity_def)

theorem updateCartQuantity_absent_unchanged_witness:
  "''product_2'' \<notin> id_p ` set [product.extend coffee \<lparr>quantity = 1\<rparr>] \<and> (0 :: int) < 4 \<and>
   updateCartQuantity ''product_2'' 4 [product.extend coffee \<lparr>quantity = 1\<rparr>]
     = [product.extend coffee \<lparr>quantity = 1\<rparr>]"
proof -
  have absent: "''product_2'' \<notin> id_p ` set [product.extend coffee \<lparr>quantity = 1\<rparr>]"
    by (simp add: coffee_def product.defs)
  have pos: "(0 :: int) < 4" by simp
  from updateCartQuantity_absent_unchanged [OF absent pos] absent pos show ?thesis
    by (simp only: simp_thms)
qed

section \<open>Properties of the webhook handler\<close>






text \<open>
  Claim C1. When the verification of a webhook request fails (the library throws: bad
  signature, expired timestamp, tampered body, wrong secret), the handler answers with
  status 400 and the text \<^verbatim>\<open>Webhook Error:\<close> followed by the message, and no branch
  of the event switch runs.
\<close>

theorem webhook_rejects_failed_verification:
  assumes "constructEvent req_body sig secret = Inl m"
  shows "ended (webhook constructEvent secret req_body sig) =
           Responded \<lparr>status = 400, body = Text (''Webhook Error: '' @ m)\<rparr> \<and>
         dispatched (printed (webhook constructEvent secret req_body sig)) = []"
  using assms by (simp add: webhook_def rejected_def dispatched_def List.map_filter_simps)

text \<open>A header computed for the right body under another secret.\<close>

theorem webhook_rejects_failed_verification_witness:
  "example_constructEvent
       (JObj [(''type'', JStr ''checkout.session.completed''),
              (''data'', JObj [(''object'', JObj [(''id'', JStr ''cs_test_a1'')])])])
       ''raw'' (Some ''sig:raw'') (Some ''whsec_other'')
     = Inl ''No signatures found matching the expected signature for payload'' \<and>
   ended (webhook
       (example_constructEvent
          (JObj [(''type'', JStr ''checkout.session.completed''),
                 (''data'', JObj [(''object'', JObj [(''id'', JStr ''cs_test_a1'')])])]))
       (Some ''whsec_other'') ''raw'' (Some ''sig:raw''))
     = Responded \<lparr>status = 400, body = Text (''Webhook Error: '' @
         ''No signatures found matching the expected signature for payload'')\<rparr> \<and>
   dispatched (printed (webhook
       (example_constructEvent
          (JObj [(''type'', JStr ''checkout.session.completed''),
                 (''data'', JObj [(''object'', JObj [(''id'', JStr ''cs_test_a1'')])])]))
       (Some ''whsec_other'') ''raw'' (Some ''sig:raw''))) = []"
proof -
  let ?event = "JObj [(''type'', JStr ''checkout.session.completed''),
                 (''data'', JObj [(''object'', JObj [(''id'', JStr ''cs_test_a1'')])])]"
  have fails: "example_constructEvent ?event ''raw'' (Some ''sig:raw'') (Some ''whsec_other'')
     = Inl ''No signatures found matching the expected signature for payload''"
    by (simp add: example_constructEvent_def)
  from fails webhook_rejects_failed_verification
      [where constructEvent = "example_constructEvent ?event" and req_body = "''raw''"
         and sig = "Some ''sig:raw''" and secret = "Some ''whsec_other''"
         and m = "''No signatures found matching the expected signature for payload''"]
  show ?thesis by (simp only: simp_thms)
qed




section \<open>Properties of the session route\<close>

lemma map_throwing_lineItem:
  "JNull \<notin> set xs \<Longrightarrow>
   \<exists>ls. map_throwing lineItem xs = Inr ls \<and> length ls = length xs \<and>
     (\<forall>k < length xs.
        currency (ls ! k) = ''aud'' \<and>
        field (xs ! k) ''name'' = Inr (product_data_name (ls ! k)) \<and>
        field (xs ! k) ''price'' = Inr (unit_amount (ls ! k)) \<and>
        field (xs ! k) ''quantity'' = Inr (line_quantity (ls ! k)))"
proof (induction xs)
  case Nil
  then show ?case by simp
next
  case (Cons x xs)
  then obtain ls where ls: "map_throwing lineItem xs = Inr ls" "length ls = length xs"
    and nth: "\<forall>k < length xs.
        currency (ls ! k) = ''aud'' \<and>
        field (xs ! k) ''name'' = Inr (product_data_name (ls ! k)) \<and>
        field (xs ! k) ''price'' = Inr (unit_amount (ls ! k)) \<and>
        field (xs ! k) ''quantity'' = Inr (line_quantity (ls ! k))"
    by auto
  from Cons.prems have "x \<noteq> JNull" by auto
  then obtain n p q where f: "field x ''name'' = Inr n" "field x ''price'' = Inr p"
      "field x ''quantity'' = Inr q"
    by (cases x) simp_all
  let ?l = "\<lparr>currency = ''aud'', product_data_name = n, unit_amount = p, line_quantity = q\<rparr>"
  have "lineItem x = Inr ?l" using f by (simp add: lineItem_def)
  with ls have "map_throwing lineItem (x # xs) = Inr (?l # ls)" by simp
  moreover have "length (?l # ls) = length (x # xs)" using ls by simp
  moreover have "\<forall>k < length (x # xs).
        currency ((?l # ls) ! k) = ''aud'' \<and>
        field ((x # xs) ! k) ''name'' = Inr (product_data_name ((?l # ls) ! k)) \<and>
        field ((x # xs) ! k) ''price'' = Inr (unit_amount ((?l # ls) ! k)) \<and>
        field ((x # xs) ! k) ''quantity'' = Inr (line_quantity ((?l # ls) ! k))"
    using nth f by (auto simp: nth_Cons split: nat.splits)
  ultimately show ?case by blast
qed

lemma lineItems_array:
  assumes "JNull \<notin> set xs"
  shows "\<exists>ls. lineItems (Some (JArr xs)) = Inr ls \<and> length ls = length xs \<and>
     (\<forall>k < length xs.
        currency (ls ! k) = ''aud'' \<and>
        field (xs ! k) ''name'' = Inr (product_data_name (ls ! k)) \<and>
        field (xs ! k) ''price'' = Inr (unit_amount (ls ! k)) \<and>
        field (xs ! k) ''quantity'' = Inr (line_quantity (ls ! k)))"
  using map_throwing_lineItem [OF assms] by (simp add: lineItems_def)

lemma no_items_array: "no_items (Some (JArr xs)) \<longleftrightarrow> xs = []"
  by (simp add: no_items_def)

lemma provider_calls_create_checkout_session:
  "provider_calls (create_checkout_session create url req_body) =
     (if no_items (own req_body ''items'') then []
      else case lineItems (own req_body ''items'') of
             Inl e \<Rightarrow> []
           | Inr ls \<Rightarrow> [build_params url ls])"
  by (simp add: create_checkout_session_def Let_def split: sum.splits)

lemma sent_success:
  assumes "provider_calls (create_checkout_session create url req_body) = [p]"
    and "create p = Inr session_id"
  shows "create_checkout_session create url req_body =
           \<lparr>sent = \<lparr>status = 200, body = Json (JObj [(''id'', JStr session_id)])\<rparr>,
            provider_calls = [p], console = []\<rparr>"
  using assms
  by (auto simp: create_checkout_session_def Let_def split: if_splits sum.splits)

text \<open>
  Claim C3. A request whose body has no \<^verbatim>\<open>items\<close> member, or has \<^verbatim>\<open>items\<close>
  \<^verbatim>\<open>null\<close> or the empty array, is answered with status 400 and the message
  \<^verbatim>\<open>No items provided\<close>, and the provider is not called.
\<close>

theorem create_checkout_session_rejects_no_items:
  assumes "own req_body ''items'' = None \<or> own req_body ''items'' = Some JNull \<or>
           own req_body ''items'' = Some (JArr [])"
  shows "create_checkout_session create FRONTEND_URL req_body =
           \<lparr>sent = \<lparr>status = 400, body = Json (JObj [(''error'', JStr ''No items provided'')])\<rparr>,
            provider_calls = [], console = []\<rparr>"
  using assms by (auto simp: create_checkout_session_def no_items_def)

text \<open>The empty body, \<^verbatim>\<open>{items: null}\<close> and \<^verbatim>\<open>{items: []}\<close>.\<close>

theorem create_checkout_session_rejects_no_items_witness:
  "own [] ''items'' = None \<and>
   create_checkout_session example_create None [] =
     \<lparr>sent = \<lparr>status = 400, body = Json (JObj [(''error'', JStr ''No items provided'')])\<rparr>,
      provider_calls = [], console = []\<rparr> \<and>
   own [(''items'', JNull)] ''items'' = Some JNull \<and>
   create_checkout_session example_create None [(''items'', JNull)] =
     \<lparr>sent = \<lparr>status = 400, body = Json (JObj [(''error'', JStr ''No items provided'')])\<rparr>,
      provider_calls = [], console = []\<rparr> \<and>
   own [(''items'', JArr [])] ''items'' = Some (JArr []) \<and>
   create_checkout_session example_create None [(''items'', JArr [])] =
     \<lparr>sent = \<lparr>status = 400, body = Json (JObj [(''error'', JStr ''No items provided'')])\<rparr>,
      provider_calls = [], console = []\<rparr>"
proof -
  have a: "own [] ''items'' = None"
    and b: "own [(''items'', JNull)] ''items'' = Some JNull"
    and c: "own [(''items'', JArr [])] ''items'' = Some (JArr [])"
    by (simp_all add: own_def)
  note ra = create_checkout_session_rejects_no_items
    [where req_body = "[]" and create = example_create and FRONTEND_URL = None, OF disjI1, OF a]
  note rb = create_checkout_session_rejects_no_items
    [where req_body = "[(''items'', JNull)]" and create = example_create and FRONTEND_URL = None,
     OF disjI2, OF disjI1, OF b]
  note rc = create_checkout_session_rejects_no_items
    [where req_body = "[(''items'', JArr [])]" and create = example_create and FRONTEND_URL = None,
     OF disjI2, OF disjI2, OF c]
  from a b c ra rb rc show ?thesis by (simp only: simp_thms)
qed

text \<open>
  Claim C4. For a non-empty array of items (none of them \<^verbatim>\<open>null\<close>) the handler calls
  the provider once, with one line item for each input item, in order, carrying the
  item's name, price (as unit amount) and quantity; when that call succeeds, the answer
  is 200 with \<^verbatim>\<open>{id: sessionId}\<close>, the id the provider returned. For the input
  \<^verbatim>\<open>[{id:'product_1', name:'Premium Coffee Beans', price:1500, quantity:2}]\<close> the
  request has exactly one line item, with unit amount 1500 and quantity 2.
\<close>

theorem create_checkout_session_line_items:
  "(own req_body ''items'' = Some (JArr xs) \<and> xs \<noteq> [] \<and> JNull \<notin> set xs \<longrightarrow>
     (\<exists>p. provider_calls (create_checkout_session create FRONTEND_URL req_body) = [p] \<and>
        length (line_items p) = length xs \<and>
        (\<forall>k < length xs.
           field (xs ! k) ''name'' = Inr (product_data_name (line_items p ! k)) \<and>
           field (xs ! k) ''price'' = Inr (unit_amount (line_items p ! k)) \<and>
           field (xs ! k) ''quantity'' = Inr (line_quantity (line_items p ! k))))) \<and>
   (provider_calls (create_checkout_session create FRONTEND_URL req_body) = [p] \<and>
    create p = Inr session_id \<longrightarrow>
      sent (create_checkout_session create FRONTEND_URL req_body) =
        \<lparr>status = 200, body = Json (JObj [(''id'', JStr session_id)])\<rparr>) \<and>
   map line_items (provider_calls (create_checkout_session create FRONTEND_URL
      [(''items'', JArr [JObj [(''id'', JStr ''product_1''), (''name'', JStr ''Premium Coffee Beans''),
                              (''price'', JNum 1500), (''quantity'', JNum 2)]])]))
     = [[\<lparr>currency = ''aud'', product_data_name = Some (JStr ''Premium Coffee Beans''),
          unit_amount = Some (JNum 1500), line_quantity = Some (JNum 2)\<rparr>]]"
proof (intro conjI impI)
  assume h: "own req_body ''items'' = Some (JArr xs) \<and> xs \<noteq> [] \<and> JNull \<notin> set xs"
  then obtain ls where ls: "lineItems (Some (JArr xs)) = Inr ls" "length ls = length xs"
    and nth: "\<forall>k < length xs.
        currency (ls ! k) = ''aud'' \<and>
        field (xs ! k) ''name'' = Inr (product_data_name (ls ! k)) \<and>
        field (xs ! k) ''price'' = Inr (unit_amount (ls ! k)) \<and>
        field (xs ! k) ''quantity'' = Inr (line_quantity (ls ! k))"
    using lineItems_array [of xs] by blast
  from h ls have "provider_calls (create_checkout_session create FRONTEND_URL req_body)
      = [build_params FRONTEND_URL ls]"
    by (simp add: provider_calls_create_checkout_session no_items_array)
  moreover have "line_items (build_params FRONTEND_URL ls) = ls"
    by (simp add: build_params_def)
  ultimately show "\<exists>p. provider_calls (create_checkout_session create FRONTEND_URL req_body) = [p] \<and>
        length (line_items p) = length xs \<and>
        (\<forall>k < length xs.
           field (xs ! k) ''name'' = Inr (product_data_name (line_items p ! k)) \<and>
           field (xs ! k) ''price'' = Inr (unit_amount (line_items p ! k)) \<and>
           field (xs ! k) ''quantity'' = Inr (line_quantity (line_items p ! k)))"
    using ls(2) nth by auto
next
  assume "provider_calls (create_checkout_session create FRONTEND_URL req_body) = [p] \<and>
    create p = Inr session_id"
  then show "sent (create_checkout_session create FRONTEND_URL req_body) =
        \<lparr>status = 200, body = Json (JObj [(''id'', JStr session_id)])\<rparr>"
    using sent_success [of create FRONTEND_URL req_body p session_id] by simp
next
  show "map line_items (provider_calls (create_checkout_session create FRONTEND_URL
      [(''items'', JArr [JObj [(''id'', JStr ''product_1''), (''name'', JStr ''Premium Coffee Beans''),
                              (''price'', JNum 1500), (''quantity'', JNum 2)]])]))
     = [[\<lparr>currency = ''aud'', product_data_name = Some (JStr ''Premium Coffee Beans''),
          unit_amount = Some (JNum 1500), line_quantity = Some (JNum 2)\<rparr>]]"
    by (simp add: provider_calls_create_checkout_session no_items_def own_def lineItems_def
        lineItem_def build_params_def)
qed

text \<open>The request the client sends for a cart with two packs of coffee.\<close>

theorem create_checkout_session_line_items_witness:
  "own (request_body [product.extend coffee \<lparr>quantity = 2\<rparr>]) ''items''
     = Some (JArr [item_json (product.extend coffee \<lparr>quantity = 2\<rparr>)]) \<and>
   [item_json (product.extend coffee \<lparr>quantity = 2\<rparr>)] \<noteq> [] \<and>
   JNull \<notin> set [item_json (product.extend coffee \<lparr>quantity = 2\<rparr>)] \<and>
   (\<exists>p. provider_calls (create_checkout_session example_create (Some ''http://localhost:3000'')
            (request_body [product.extend coffee \<lparr>quantity = 2\<rparr>])) = [p] \<and>
        length (line_items p) = 1 \<and>
        unit_amount (line_items p ! 0) = Some (JNum 1500) \<and>
        line_quantity (line_items p ! 0) = Some (JNum 2)) \<and>
   example_create
     (build_params (Some ''http://localhost:3000'')
        [\<lparr>currency = ''aud'', product_data_name = Some (JStr ''Premium Coffee Beans''),
          unit_amount = Some (JNum 1500), line_quantity = Some (JNum 2)\<rparr>])
     = Inr ''cs_test_a1'' \<and>
   sent (create_checkout_session example_create (Some ''http://localhost:3000'')
           (request_body [product.extend coffee \<lparr>quantity = 2\<rparr>]))
     = \<lparr>status = 200, body = Json (JObj [(''id'', JStr ''cs_test_a1'')])\<rparr>"
proof -
  let ?B = "request_body [product.extend coffee \<lparr>quantity = 2\<rparr>]"
  let ?x = "item_json (product.extend coffee \<lparr>quantity = 2\<rparr>)"
  let ?url = "Some ''http://localhost:3000''"
  let ?P = "build_params ?url
        [\<lparr>currency = ''aud'', product_data_name = Some (JStr ''Premium Coffee Beans''),
          unit_amount = Some (JNum 1500), line_quantity = Some (JNum 2)\<rparr>]"
  have h1: "own ?B ''items'' = Some (JArr [?x])"
    by (simp add: own_def request_body_def)
  have h2: "[?x] \<noteq> []" by simp
  have h3: "JNull \<notin> set [?x]" by (simp add: item_json_def)
  have fields: "field ?x ''price'' = Inr (Some (JNum 1500))"
      "field ?x ''quantity'' = Inr (Some (JNum 2))"
    by (simp_all add: item_json_def own_def coffee_def product.defs)
  note general = create_checkout_session_line_items
    [where req_body = ?B and xs = "[?x]" and create = example_create and FRONTEND_URL = ?url
       and p = ?P and session_id = "''cs_test_a1''"]
  from general h1 h2 h3 obtain p where
    p: "provider_calls (create_checkout_session example_create ?url ?B) = [p]"
       "length (line_items p) = length [?x]"
    and nth: "\<forall>k < length [?x].
           field ([?x] ! k) ''name'' = Inr (product_data_name (line_items p ! k)) \<and>
           field ([?x] ! k) ''price'' = Inr (unit_amount (line_items p ! k)) \<and>
           field ([?x] ! k) ''quantity'' = Inr (line_quantity (line_items p ! k))"
    by blast
  from nth [rule_format, of 0] fields
  have "unit_amount (line_items p ! 0) = Some (JNum 1500)"
    "line_quantity (line_items p ! 0) = Some (JNum 2)"
    by simp_all
  with p have ex: "\<exists>p. provider_calls (create_checkout_session example_create ?url ?B) = [p] \<and>
        length (line_items p) = 1 \<and>
        unit_amount (line_items p ! 0) = Some (JNum 1500) \<and>
        line_quantity (line_items p ! 0) = Some (JNum 2)"
    by auto
  have calls: "provider_calls (create_checkout_session example_create ?url ?B) = [?P]"
    by (simp add: provider_calls_create_checkout_session no_items_def own_def lineItems_def
        lineItem_def request_body_def item_json_def coffee_def product.defs)
  have created: "example_create ?P = Inr ''cs_test_a1''"
    by (simp add: example_create_def)
  from general calls created
  have answer: "sent (create_checkout_session example_create ?url ?B)
     = \<lparr>status = 200, body = Json (JObj [(''id'', JStr ''cs_test_a1'')])\<rparr>"
    by blast
  from h1 h2 h3 ex created answer show ?thesis by (simp only: simp_thms)
qed

text \<open>
  Claim C5. When the handler's call to the provider fails (a call is made only for a
  non-empty \<^verbatim>\<open>items\<close>), the answer is status 500 with \<^verbatim>\<open>{error: message}\<close>, the
  provider's error message. Besides this answer, the one call and one console line, the
  request does nothing: the handler has no state that it could change.
\<close>

theorem create_checkout_session_upstream_failure:
  assumes "provider_calls (create_checkout_session create FRONTEND_URL req_body) = [p]"
    and "create p = Inl m"
  shows "create_checkout_session create FRONTEND_URL req_body =
           \<lparr>sent = \<lparr>status = 500, body = Json (JObj [(''error'', JStr m)])\<rparr>,
            provider_calls = [p], console = [Error_creating_checkout_session m]\<rparr>"
  using assms
  by (auto simp: create_checkout_session_def Let_def split: if_splits sum.splits)

text \<open>The same request when the provider refuses the API key.\<close>

theorem create_checkout_session_upstream_failure_witness:
  "provider_calls (create_checkout_session failing_create (Some ''http://localhost:3000'')
      (request_body [product.extend coffee \<lparr>quantity = 2\<rparr>]))
     = [build_params (Some ''http://localhost:3000'')
        [\<lparr>currency = ''aud'', product_data_name = Some (JStr ''Premium Coffee Beans''),
          unit_amount = Some (JNum 1500), line_quantity = Some (JNum 2)\<rparr>]] \<and>
   failing_create
     (build_params (Some ''http://localhost:3000'')
        [\<lparr>currency = ''aud'', product_data_name = Some (JStr ''Premium Coffee Beans''),
          unit_amount = Some (JNum 1500), line_quantity = Some (JNum 2)\<rparr>])
     = Inl ''Invalid API Key provided'' \<and>
   sent (create_checkout_session failing_create (Some ''http://localhost:3000'')
      (request_body [product.extend coffee \<lparr>quantity = 2\<rparr>]))
     = \<lparr>status = 500, body = Json (JObj [(''error'', JStr ''Invalid API Key provided'')])\<rparr>"
proof -
  let ?B = "request_body [product.extend coffee \<lparr>quantity = 2\<rparr>]"
  let ?url = "Some ''http://localhost:3000''"
  let ?P = "build_params ?url
        [\<lparr>currency = ''aud'', product_data_name = Some (JStr ''Premium Coffee Beans''),
          unit_amount = Some (JNum 1500), line_quantity = Some (JNum 2)\<rparr>]"
  have calls: "provider_calls (create_checkout_session failing_create ?url ?B) = [?P]"
    by (simp add: provider_calls_create_checkout_session no_items_def own_def lineItems_def
        lineItem_def request_body_def item_json_def coffee_def product.defs)
  have fails: "failing_create ?P = Inl ''Invalid API Key provided''"
    by (simp add: failing_create_def)
  from create_checkout_session_upstream_failure
    [where create = failing_create and FRONTEND_URL = ?url and req_body = ?B and p = ?P
       and m = "''Invalid API Key provided''", OF calls fails]
  have "sent (create_checkout_session failing_create ?url ?B)
     = \<lparr>status = 500, body = Json (JObj [(''error'', JStr ''Invalid API Key provided'')])\<rparr>"
    by simp
  with calls fails show ?thesis by (simp only: simp_thms)
qed

section \<open>Properties of the checkout flow\<close>

text \<open>
  Claim C9. The flow has the two states Browsing and Reviewing and starts in Browsing.
  \<^verbatim>\<open>proceedToCheckout\<close> moves to Reviewing when the cart is non-empty, and only then;
  on an empty cart it alerts the user and changes nothing. \<^verbatim>\<open>backToShopping\<close> always
  leads to Browsing and keeps the cart. \<^verbatim>\<open>pay\<close> never changes the state: when it
  fails, the error is printed and shown to the user, and a flow in Reviewing stays there.
\<close>

theorem checkout_flow_transitions:
  "flow initial_state = Browsing \<and>
   (flow st = Browsing \<or> flow st = Reviewing) \<and>
   (cart st \<noteq> [] \<longrightarrow>
      handleProceedToCheckout st = (st\<lparr>showCheckout := True\<rparr>, []) \<and>
      flow (fst (handleProceedToCheckout st)) = Reviewing) \<and>
   (cart st = [] \<longrightarrow> handleProceedToCheckout st = (st, [Alert_cart_empty])) \<and>
   (cart st = [] \<and> flow st = Browsing \<longrightarrow> flow (fst (handleProceedToCheckout st)) = Browsing) \<and>
   (flow st = Browsing \<and> flow (fst (handleProceedToCheckout st)) = Reviewing \<longrightarrow> cart st \<noteq> []) \<and>
   flow (handleBackToShopping st) = Browsing \<and>
   cart (handleBackToShopping st) = cart st \<and>
   fst (handleStripeCheckoutRedirect fetch stripePromise st) = st \<and>
   (try_checkout fetch stripePromise (cart st) = Inl e \<longrightarrow>
      handleStripeCheckoutRedirect fetch stripePromise st
        = (st, [Console_error_initiating e, Alert_could_not_initiate e])) \<and>
   (flow st = Reviewing \<longrightarrow>
      flow (fst (handleStripeCheckoutRedirect fetch stripePromise st)) = Reviewing)"
proof -
  have pay: "fst (handleStripeCheckoutRedirect fetch stripePromise st) = st"
    by (simp add: handleStripeCheckoutRedirect_def split: sum.splits)
  have proceed: "handleProceedToCheckout st =
      (if cart st = [] then (st, [Alert_cart_empty]) else (st\<lparr>showCheckout := True\<rparr>, []))"
    by (simp add: handleProceedToCheckout_def)
  show ?thesis
    unfolding pay proceed
    by (auto simp: flow_def initial_state_def handleBackToShopping_def
        handleStripeCheckoutRedirect_def)
qed

text \<open>
  Proceeding with a cart of two packs of coffee and with the empty cart, and paying when
  the provider refuses the backend's API key.
\<close>

theorem checkout_flow_transitions_witness:
  "cart \<lparr>cart = [product.extend coffee \<lparr>quantity = 2\<rparr>], showCheckout = False\<rparr> \<noteq> [] \<and>
   flow \<lparr>cart = [product.extend coffee \<lparr>quantity = 2\<rparr>], showCheckout = False\<rparr> = Browsing \<and>
   flow (fst (handleProceedToCheckout
        \<lparr>cart = [product.extend coffee \<lparr>quantity = 2\<rparr>], showCheckout = False\<rparr>)) = Reviewing \<and>
   cart initial_state = [] \<and>
   handleProceedToCheckout initial_state = (initial_state, [Alert_cart_empty]) \<and>
   flow \<lparr>cart = [product.extend coffee \<lparr>quantity = 2\<rparr>], showCheckout = True\<rparr> = Reviewing \<and>
   try_checkout (backend_fetch failing_create (Some ''http://localhost:3000'')) (Inr True)
       (cart \<lparr>cart = [product.extend coffee \<lparr>quantity = 2\<rparr>], showCheckout = True\<rparr>)
     = Inl (Error_of (JStr ''Invalid API Key provided'')) \<and>
   handleStripeCheckoutRedirect (backend_fetch failing_create (Some ''http://localhost:3000''))
       (Inr True) \<lparr>cart = [product.extend coffee \<lparr>quantity = 2\<rparr>], showCheckout = True\<rparr>
     = (\<lparr>cart = [product.extend coffee \<lparr>quantity = 2\<rparr>], showCheckout = True\<rparr>,
        [Console_error_initiating (Error_of (JStr ''Invalid API Key provided'')),
         Alert_could_not_initiate (Error_of (JStr ''Invalid API Key provided''))]) \<and>
   flow (fst (handleStripeCheckoutRedirect
        (backend_fetch failing_create (Some ''http://localhost:3000'')) (Inr True)
        \<lparr>cart = [product.extend coffee \<lparr>quantity = 2\<rparr>], showCheckout = True\<rparr>)) = Reviewing"
proof -
  let ?browsing = "\<lparr>cart = [product.extend coffee \<lparr>quantity = 2\<rparr>], showCheckout = False\<rparr>"
  let ?reviewing = "\<lparr>cart = [product.extend coffee \<lparr>quantity = 2\<rparr>], showCheckout = True\<rparr>"
  let ?fetch = "backend_fetch failing_create (Some ''http://localhost:3000'')"
  let ?e = "Error_of (JStr ''Invalid API Key provided'')"
  have nonempty: "cart ?browsing \<noteq> []" by simp
  have b: "flow ?browsing = Browsing" and r: "flow ?reviewing = Reviewing"
    by (simp_all add: flow_def)
  have empty: "cart initial_state = []"
    by (simp add: initial_state_def initial_cart_def)
  have thrown: "try_checkout ?fetch (Inr True) (cart ?reviewing) = Inl ?e"
    by (simp add: try_checkout_def backend_fetch_def create_checkout_session_def
        failing_create_def request_body_def item_json_def no_items_def own_def lineItems_def
        lineItem_def ok_def Let_def)
  from checkout_flow_transitions [of ?browsing] nonempty
  have proceed: "flow (fst (handleProceedToCheckout ?browsing)) = Reviewing"
    by blast
  from checkout_flow_transitions [of initial_state] empty
  have warned: "handleProceedToCheckout initial_state = (initial_state, [Alert_cart_empty])"
    by blast
  note pay = checkout_flow_transitions
    [where st = ?reviewing and fetch = ?fetch and stripePromise = "Inr True" and e = ?e]
  from pay thrown
  have failed: "handleStripeCheckoutRedirect ?fetch (Inr True) ?reviewing
     = (?reviewing, [Console_error_initiating ?e, Alert_could_not_initiate ?e])"
    by blast
  from pay r
  have stays: "flow (fst (handleStripeCheckoutRedirect ?fetch (Inr True) ?reviewing)) = Reviewing"
    by blast
  from nonempty b proceed empty warned r thrown failed stays show ?thesis
    by (simp only: simp_thms)
qed

end
